theory Spec2Isabelle
  imports Complex_Main
begin

section \<open>Atmospheric refraction after Saemundsson and the barometric formula\<close>

text \<open>
  The script \<^verbatim>\<open>Atmospheric_refraction.py\<close> computes with NumPy arrays of IEEE doubles.
  The embedding below is the exact-arithmetic reading of that code: a double is a
  \<^typ>\<open>real\<close>, rounding is not modelled, and an array element that has no finite real
  value (NumPy yields \<^verbatim>\<open>inf\<close> or \<^verbatim>\<open>nan\<close> and only warns) is \<^term>\<open>None\<close>.
  A Python exception is a value of type \<open>error\<close>.
\<close>

subsection \<open>NumPy primitives\<close>

datatype error = ZeroDivisionError

text \<open>\<^verbatim>\<open>np.deg2rad(x)\<close> is \<^verbatim>\<open>x * (pi / 180)\<close>.\<close>

definition deg2rad :: "real \<Rightarrow> real" where
  "deg2rad x = x * (pi / 180)"

text \<open>
  \<^verbatim>\<open>a.clip(min=lo, max=hi)\<close> is \<^verbatim>\<open>minimum(maximum(a, lo), hi)\<close> on every element; no
  order between the two bounds is required.
\<close>

definition clip :: "real \<Rightarrow> real \<Rightarrow> real \<Rightarrow> real" where
  "clip x lo hi = min (max x lo) hi"

text \<open>Array division: a zero divisor gives \<^verbatim>\<open>inf\<close> or \<^verbatim>\<open>nan\<close>, never an exception.\<close>

definition np_divide :: "real \<Rightarrow> real \<Rightarrow> real option" where
  "np_divide x y = (if y = 0 then None else Some (x / y))"

text \<open>The tangent has no value at the odd multiples of a right angle.\<close>

definition np_tan :: "real \<Rightarrow> real option" where
  "np_tan a = (if cos a = 0 then None else Some (tan a))"

text \<open>
  \<^verbatim>\<open>b ** e\<close> on doubles: a negative base with a fractional exponent is \<^verbatim>\<open>nan\<close>, and
  zero to a negative power is \<^verbatim>\<open>inf\<close>.
\<close>

definition np_power :: "real \<Rightarrow> real \<Rightarrow> real option" where
  "np_power b e =
     (if 0 < b then Some (b powr e)
      else if b = 0 then (if 0 < e then Some 0 else if e = 0 then Some 1 else None)
      else if e \<in> \<int> then Some (b powi \<lfloor>e\<rfloor>) else None)"

text \<open>
  \<^verbatim>\<open>np.linspace(start, stop, num)\<close> with the end point included: \<^verbatim>\<open>num\<close> samples with
  step \<^verbatim>\<open>(stop - start) / (num - 1)\<close>, the last one overwritten by \<^verbatim>\<open>stop\<close>.
\<close>

definition linspace :: "real \<Rightarrow> real \<Rightarrow> nat \<Rightarrow> real list" where
  "linspace start stop num =
     (if num = 0 then []
      else if num = 1 then [start]
      else map (\<lambda>i. start + real i * ((stop - start) / real (num - 1))) [0..<num - 1] @ [stop])"

subsection \<open>The refraction correction\<close>

text \<open>
  Line 41 of the script on one (already clipped) element:
  \<^verbatim>\<open>1.02 / np.tan(np.deg2rad(h + 10.3 / (h + 5.11)))\<close>.
\<close>

definition tan_arg :: "real \<Rightarrow> real" where
  "tan_arg x = deg2rad (x + 10.3 / (x + 5.11))"

definition R_elem :: "real \<Rightarrow> real option" where
  "R_elem x =
     Option.bind (np_divide 10.3 (x + 5.11))
       (\<lambda>q. Option.bind (np_tan (deg2rad (x + q))) (\<lambda>t. np_divide 1.02 t))"

text \<open>
  \<^verbatim>\<open>
  def Saemundsson(h, T=10.0, P=101.0, h_min=-1.0, h_max=90.0):
      h = h.clip(min=h_min, max=h_max)
      R = (1.02 / np.tan(np.deg2rad(h + 10.3 / (h + 5.11))))
      R += 0.0019279
      R *= (P / 101.0) * (283.0 / (273.0 + T))
      return R * (1.0 / 60.0)
  \<close>
  \<^verbatim>\<open>T\<close> and \<^verbatim>\<open>P\<close> are Python floats, so \<^verbatim>\<open>283.0 / (273.0 + T)\<close> raises when the
  divisor is zero; the array operations never raise.
\<close>

definition Saemundsson ::
  "real list \<Rightarrow> real \<Rightarrow> real \<Rightarrow> real \<Rightarrow> real \<Rightarrow> error + real option list" where
  "Saemundsson h T P h_min h_max =
     (let h1 = map (\<lambda>x. clip x h_min h_max) h;
          R1 = map R_elem h1;
          R2 = map (map_option (\<lambda>r. r + 0.0019279)) R1
      in if 273.0 + T = 0 then Inl ZeroDivisionError
         else
           let R3 = map (map_option (\<lambda>r. r * ((P / 101.0) * (283.0 / (273.0 + T))))) R2
           in Inr (map (map_option (\<lambda>r. r * (1.0 / 60.0))) R3))"

text \<open>The defaults of the keyword arguments.\<close>

definition T_default :: real where "T_default = 10.0"
definition P_default :: real where "P_default = 101.0"
definition h_min_default :: real where "h_min_default = - 1.0"
definition h_max_default :: real where "h_max_default = 90.0"

text \<open>
  The closed form of the specification, on a clipped angle \<open>hc\<close>; the code is compared
  with it.
\<close>

definition spec_correction :: "real \<Rightarrow> real \<Rightarrow> real \<Rightarrow> real" where
  "spec_correction hc T P =
     ((1.02 / tan (deg2rad (hc + 10.3 / (hc + 5.11))) + 0.0019279)
        * (P / 101.0) * (283.0 / (273.0 + T))) * (1 / 60)"

text \<open>The formula has a value where neither division is by zero and the tangent exists.\<close>

definition formula_defined :: "real \<Rightarrow> bool" where
  "formula_defined hc \<longleftrightarrow>
     hc + 5.11 \<noteq> 0 \<and> cos (tan_arg hc) \<noteq> 0 \<and> sin (tan_arg hc) \<noteq> 0"

text \<open>The argument of the tangent in degrees, before \<^verbatim>\<open>np.deg2rad\<close>.\<close>

definition deg_arg :: "real \<Rightarrow> real" where
  "deg_arg x = x + 10.3 / (x + 5.11)"

text \<open>
  The elevation at which the argument of the tangent is exactly 90 degrees: the larger
  root of \<open>x\<^sup>2 - 84.89 x - 449.6 = 0\<close>, about 89.8916.
\<close>

definition pole_elevation :: real where
  "pole_elevation = (8489 + sqrt 90047121) / 200"

subsection \<open>The script's data\<close>

definition sol_elev :: "real list" where
  "sol_elev = linspace (- 2.5) 90.0 926"

text \<open>The table \<^verbatim>\<open>atmos_cond\<close>: temperature, pressure and colour of each curve.\<close>

definition atmos_cond :: "(real \<times> real \<times> string) list" where
  "atmos_cond =
     [(10.0, 101.0, ''red''), (- 30.0, 101.0, ''blue''),
      (10.0, 70.0, ''coral''), (- 30.0, 70.0, ''cornflowerblue'')]"

text \<open>
  The two curves drawn for one row of the table: the dotted one with \<^verbatim>\<open>h_min=-20.0\<close>,
  the solid one with the default bounds.
\<close>

definition curves :: "real \<times> real \<times> string \<Rightarrow> (error + real option list) list" where
  "curves c =
     (case c of (T, P, col) \<Rightarrow>
        [Saemundsson sol_elev T P (- 20.0) h_max_default,
         Saemundsson sol_elev T P h_min_default h_max_default])"

definition plotted :: "(error + real option list) list" where
  "plotted = concat (map curves atmos_cond)"

subsection \<open>The barometric formula\<close>

definition T_0 :: real where "T_0 = 273.15 + 10.0"
definition p_0 :: real where "p_0 = 101.0"
definition g :: real where "g = 9.81"
definition R_d :: real where "R_d = 287.0"
definition tau :: real where "tau = 0.0065"

text \<open>\<^verbatim>\<open>p_0 * ((T_0 - tau * z) / T_0) ** (g / (R_d * tau))\<close> on an array of altitudes.\<close>

definition pressure :: "real list \<Rightarrow> real option list" where
  "pressure zs =
     map (\<lambda>x. map_option (\<lambda>w. p_0 * w) (np_power ((T_0 - tau * x) / T_0) (g / (R_d * tau)))) zs"

definition z :: "real list" where
  "z = linspace 0.0 31000.0 1000"

definition p :: "real option list" where
  "p = pressure z"

section \<open>Properties\<close>

subsection \<open>Shape of the result\<close>

lemma R_elem_eq:
  "R_elem x = (if formula_defined x then Some (1.02 / tan (tan_arg x)) else None)"
  by (simp add: R_elem_def formula_defined_def np_divide_def np_tan_def tan_arg_def
      tan_eq_0_cos_sin)

lemma Saemundsson_Inr:
  "273 + T \<noteq> 0 \<Longrightarrow>
   Saemundsson h T P h_min h_max =
     Inr (map (\<lambda>x. if formula_defined (clip x h_min h_max)
                    then Some (spec_correction (clip x h_min h_max) T P) else None) h)"
  by (simp add: Saemundsson_def Let_def R_elem_eq spec_correction_def tan_arg_def o_def)

lemma Saemundsson_Inl:
  "273 + T = 0 \<Longrightarrow> Saemundsson h T P h_min h_max = Inl ZeroDivisionError"
  by (simp add: Saemundsson_def Let_def)

text \<open>
  C1: the result has the length and order of the input, and its \<open>i\<close>-th element is the
  closed form at the clipped \<open>i\<close>-th input \<open>min (max (h ! i) h_min) h_max\<close>, wherever that
  closed form has a value (no division by zero, the tangent exists).
\<close>

theorem Saemundsson_elementwise:
  assumes "273 + T \<noteq> 0"
  shows "\<exists>R. Saemundsson h T P h_min h_max = Inr R \<and> length R = length h \<and>
           (\<forall>i<length h.
              R ! i =
                (let hc = min (max (h ! i) h_min) h_max
                 in if formula_defined hc then
                      Some (((1.02 / tan (deg2rad (hc + 10.3 / (hc + 5.11))) + 0.0019279)
                               * (P / 101.0) * (283.0 / (273.0 + T))) * (1 / 60))
                    else None))"
  using assms
  by (simp add: Saemundsson_Inr Let_def clip_def spec_correction_def)


theorem Saemundsson_elementwise_witness:
  "273 + (10::real) \<noteq> 0 \<and>
   (\<exists>R. Saemundsson [95, - 3] 10 101 (- 1) 90 = Inr R \<and> length R = length [95, - 3 :: real] \<and>
      (\<forall>i<length [95, - 3 :: real].
         R ! i =
           (let hc = min (max ([95, - 3] ! i) (- 1)) 90
            in if formula_defined hc then
                 Some (((1.02 / tan (deg2rad (hc + 10.3 / (hc + 5.11))) + 0.0019279)
                          * (101 / 101.0) * (283.0 / (273.0 + 10))) * (1 / 60))
               else None)))"
proof -
  have t: "273 + (10::real) \<noteq> 0"
    by simp
  show ?thesis
    using t Saemundsson_elementwise [OF t, of "[95, - 3]" 101 "- 1" 90] by blast
qed

subsection \<open>Clipping\<close>

lemma clip_clip: "clip (clip x lo hi) lo hi = clip x lo hi"
  by (simp add: clip_def min_def max_def)

text \<open>
  C6: clipping the input beforehand with the same bounds does not change the result,
  for every input array and every pair of bounds.
\<close>

theorem Saemundsson_clip_idempotent:
  "Saemundsson (map (\<lambda>x. clip x a b) h) T P a b = Saemundsson h T P a b"
  by (simp add: Saemundsson_def Let_def o_def clip_clip)

subsection \<open>Scaling with temperature and pressure\<close>

text \<open>
  C7: the result for \<open>T = 10\<close>, \<open>P = 101\<close>, multiplied element by element with
  \<open>(P' / 101) * (283 / (273 + T'))\<close>, is the result for \<open>T'\<close> and \<open>P'\<close>. It holds for
  every input array (inside the clip bounds or not), whenever the factor can be
  computed, that is \<open>273 + T' \<noteq> 0\<close>.
\<close>

theorem Saemundsson_scaling:
  assumes "273 + T' \<noteq> 0"
  shows "\<exists>R0. Saemundsson h 10 101 a b = Inr R0 \<and>
           Saemundsson h T' P' a b =
             Inr (map (map_option (\<lambda>r. r * ((P' / 101) * (283 / (273 + T'))))) R0)"
  using assms
  by (simp add: Saemundsson_Inr spec_correction_def o_def option.map_comp if_distrib cong: if_cong)

theorem Saemundsson_scaling_witness:
  "273 + (- 30 :: real) \<noteq> 0 \<and>
   (\<exists>R0. Saemundsson [0, 45] 10 101 (- 1) 90 = Inr R0 \<and>
      Saemundsson [0, 45] (- 30) 70 (- 1) 90 =
        Inr (map (map_option (\<lambda>r. r * ((70 / 101) * (283 / (273 + (- 30)))))) R0))"
proof -
  have t: "273 + (- 30 :: real) \<noteq> 0"
    by simp
  show ?thesis
    using t Saemundsson_scaling [OF t, of "[0, 45]" "- 1" 90 70] by blast
qed

subsection \<open>The barometric formula\<close>

lemma np_power_pos: "0 < b \<Longrightarrow> np_power b e = Some (b powr e)"
  by (simp add: np_power_def)

text \<open>
  C2: with the constants \<open>T_0 = 283.15\<close>, \<open>p_0 = 101\<close>, \<open>g = 9.81\<close>, \<open>R_d = 287\<close> and
  \<open>tau = 0.0065\<close>, every altitude \<open>x\<close> of the array with \<open>T_0 - tau * x > 0\<close> is mapped to
  \<open>p_0 * ((T_0 - tau * x) / T_0)\<close> to the power \<open>g / (R_d * tau)\<close>.
\<close>

theorem pressure_formula:
  assumes "\<forall>x\<in>set zs. T_0 - tau * x > 0"
  shows "T_0 = 283.15 \<and> p_0 = 101.0 \<and> g = 9.81 \<and> R_d = 287.0 \<and> tau = 0.0065 \<and>
         pressure zs =
           map (\<lambda>x. Some (101.0 * ((283.15 - 0.0065 * x) / 283.15) powr (9.81 / (287.0 * 0.0065)))) zs"
proof -
  have c: "T_0 = 283.15" "p_0 = 101.0" "g = 9.81" "R_d = 287.0" "tau = 0.0065"
    by (simp_all add: T_0_def p_0_def g_def R_d_def tau_def)
  have "0 < (T_0 - tau * x) / T_0" if "x \<in> set zs" for x
    using assms that by (simp add: c(1))
  then have "pressure zs = map (\<lambda>x. Some (p_0 * ((T_0 - tau * x) / T_0) powr (g / (R_d * tau)))) zs"
    by (simp add: pressure_def np_power_pos)
  then show ?thesis
    by (simp add: c)
qed

theorem pressure_formula_witness:
  "T_0 - tau * 0 > 0 \<and> T_0 - tau * 31000 > 0 \<and>
   pressure [0, 31000] =
     [Some (101.0 * ((283.15 - 0.0065 * 0) / 283.15) powr (9.81 / (287.0 * 0.0065))),
      Some (101.0 * ((283.15 - 0.0065 * 31000) / 283.15) powr (9.81 / (287.0 * 0.0065)))]"
proof -
  have h0: "T_0 - tau * 0 > 0" and h1: "T_0 - tau * 31000 > 0"
    by (simp_all add: T_0_def tau_def)
  then have h: "\<forall>x\<in>set [0, 31000]. T_0 - tau * x > 0"
    by simp
  have "pressure [0, 31000] =
     map (\<lambda>x. Some (101.0 * ((283.15 - 0.0065 * x) / 283.15) powr (9.81 / (287.0 * 0.0065)))) [0, 31000]"
    using pressure_formula [OF h] by (elim conjE)
  then have "pressure [0, 31000] =
     [Some (101.0 * ((283.15 - 0.0065 * 0) / 283.15) powr (9.81 / (287.0 * 0.0065))),
      Some (101.0 * ((283.15 - 0.0065 * 31000) / 283.15) powr (9.81 / (287.0 * 0.0065)))]"
    by (simp only: list.map)
  with h0 h1 show ?thesis
    by (intro conjI)
qed

text \<open>
  C8: on the altitudes from 0 to 31000 the pressure is strictly decreasing: for
  \<open>0 \<le> z1 < z2 \<le> 31000\<close> both pressures exist and the one at \<open>z2\<close> is the smaller.
\<close>

theorem pressure_strictly_decreasing:
  assumes "0 \<le> z1" "z1 < z2" "z2 \<le> 31000"
  shows "\<exists>p1 p2. pressure [z1, z2] = [Some p1, Some p2] \<and> p2 < p1"
proof -
  have b1: "0 < (T_0 - tau * z1) / T_0" and b2: "0 < (T_0 - tau * z2) / T_0"
    using assms by (simp_all add: T_0_def tau_def)
  have lt: "(T_0 - tau * z2) / T_0 < (T_0 - tau * z1) / T_0"
    using assms by (simp add: T_0_def tau_def divide_strict_right_mono)
  have e: "0 < g / (R_d * tau)"
    by (simp add: g_def R_d_def tau_def)
  have "((T_0 - tau * z2) / T_0) powr (g / (R_d * tau)) < ((T_0 - tau * z1) / T_0) powr (g / (R_d * tau))"
    using powr_less_mono2 [OF e _ lt] b2 by simp
  then have "p_0 * ((T_0 - tau * z2) / T_0) powr (g / (R_d * tau))
      < p_0 * ((T_0 - tau * z1) / T_0) powr (g / (R_d * tau))"
    by (simp add: p_0_def)
  then show ?thesis
    using b1 b2 by (simp add: pressure_def np_power_pos)
qed

theorem pressure_strictly_decreasing_witness:
  "(0::real) \<le> 0 \<and> (0::real) < 31000 \<and> (31000::real) \<le> 31000 \<and>
   (\<exists>p1 p2. pressure [0, 31000] = [Some p1, Some p2] \<and> p2 < p1)"
  using pressure_strictly_decreasing [of 0 31000] by simp

subsection \<open>Bounds on \<open>pi\<close> and on the tangent\<close>

lemma sin_coeff_sum9:
  "(\<Sum>m<9. sin_coeff m * x ^ m) = x - x ^ 3 / 6 + x ^ 5 / 120 - x ^ 7 / 5040" for x :: real
  by (simp add: eval_nat_numeral sin_coeff_Suc cos_coeff_Suc)

lemma fact9: "(fact 9 :: real) = 362880"
  by (simp add: fact_numeral)

lemma sin_poly_bound:
  "\<bar>sin x - (x - x ^ 3 / 6 + x ^ 5 / 120 - x ^ 7 / 5040)\<bar> \<le> \<bar>x\<bar> ^ 9 / 362880" for x :: real
proof -
  have "\<bar>sin x - (\<Sum>m<9. sin_coeff m * x ^ m)\<bar> \<le> inverse (fact 9) * \<bar>x\<bar> ^ 9"
    by (rule Maclaurin_sin_bound)
  then have "\<bar>sin x - (x - x ^ 3 / 6 + x ^ 5 / 120 - x ^ 7 / 5040)\<bar> \<le> inverse 362880 * \<bar>x\<bar> ^ 9"
    by (simp only: sin_coeff_sum9 fact9)
  then show ?thesis
    by (simp only: divide_inverse mult.commute)
qed

lemma sin_lt_half: "sin (314159 / 600000 :: real) < 1 / 2"
proof -
  let ?y = "314159 / 600000 :: real"
  have "sin ?y \<le> (?y - ?y ^ 3 / 6 + ?y ^ 5 / 120 - ?y ^ 7 / 5040) + \<bar>?y\<bar> ^ 9 / 362880"
    using sin_poly_bound [of ?y] by linarith
  also have "\<dots> < 1 / 2"
    by (simp add: power_divide)
  finally show ?thesis .
qed

lemma sin_gt_half: "1 / 2 < sin (31416 / 60000 :: real)"
proof -
  let ?y = "31416 / 60000 :: real"
  have "(?y - ?y ^ 3 / 6 + ?y ^ 5 / 120 - ?y ^ 7 / 5040) - \<bar>?y\<bar> ^ 9 / 362880 \<le> sin ?y"
    using sin_poly_bound [of ?y] by linarith
  moreover have "1 / 2 < (?y - ?y ^ 3 / 6 + ?y ^ 5 / 120 - ?y ^ 7 / 5040) - \<bar>?y\<bar> ^ 9 / 362880"
    by (simp add: power_divide)
  ultimately show ?thesis by linarith
qed

lemma pi_lower: "314159 / 100000 < pi"
proof (rule ccontr)
  assume "\<not> 314159 / 100000 < pi"
  then have le: "pi / 6 \<le> 314159 / 600000" by simp
  have "(314159 / 600000 :: real) \<le> 1" by simp
  also have "\<dots> \<le> pi / 2" using pi_ge_two by simp
  finally have up: "(314159 / 600000 :: real) \<le> pi / 2" .
  have "sin (pi / 6) \<le> sin (314159 / 600000)"
    by (rule sin_monotone_2pi_le) (use le up in auto)
  then show False
    using sin_lt_half by (simp add: sin_30)
qed

lemma pi_upper: "pi < 31416 / 10000"
proof (rule ccontr)
  assume "\<not> pi < 31416 / 10000"
  then have le: "31416 / 60000 \<le> pi / 6" by simp
  have "sin (31416 / 60000) \<le> sin (pi / 6)"
    by (rule sin_monotone_2pi_le) (use le in auto)
  then show False
    using sin_gt_half by (simp add: sin_30)
qed

lemma inv_tan: "1 / tan x = cos x / sin x" for x :: real
  by (simp add: tan_def)

lemma cos_ge_parabola: "1 - x\<^sup>2 / 2 \<le> cos x" for x :: real
proof -
  have "\<bar>sin (x / 2)\<bar> \<le> \<bar>x / 2\<bar>"
    by (rule abs_sin_x_le_abs_x)
  then have "(sin (x / 2))\<^sup>2 \<le> (x / 2)\<^sup>2"
    by (simp only: abs_le_square_iff)
  moreover have "cos x = 1 - 2 * (sin (x / 2))\<^sup>2"
    using cos_double_sin [of "x / 2"] by simp
  ultimately show ?thesis
    by (simp add: power_divide)
qed

lemma x_cos_le_sin:
  fixes x :: real
  assumes "0 \<le> x" "x \<le> pi"
  shows "x * cos x \<le> sin x"
proof -
  let ?f = "\<lambda>u::real. sin u - u * cos u"
  have "\<exists>y. (?f has_real_derivative y) (at u) \<and> 0 \<le> y" if "0 \<le> u" "u \<le> x" for u
  proof -
    have "(?f has_real_derivative u * sin u) (at u)"
      by (auto intro!: derivative_eq_intros)
    moreover have "0 \<le> u * sin u"
      using that assms by (intro mult_nonneg_nonneg sin_ge_zero) auto
    ultimately show ?thesis by blast
  qed
  then have "?f 0 \<le> ?f x"
    by (rule DERIV_nonneg_imp_nondecreasing [OF assms(1)])
  then show ?thesis by simp
qed

lemma tan_bounds:
  fixes x :: real
  assumes "0 \<le> x" "x \<le> 1"
  shows "x \<le> tan x" and "tan x \<le> x / (1 - x\<^sup>2 / 2)"
proof -
  have x2: "x\<^sup>2 \<le> 1"
    using assms by (simp add: power_le_one)
  have lt: "x < pi / 2"
    using assms pi_lower by linarith
  have c: "0 < cos x"
    using assms lt by (intro cos_gt_zero_pi) auto
  have "x * cos x \<le> sin x"
    using assms lt by (intro x_cos_le_sin) auto
  then show "x \<le> tan x"
    using c by (simp add: tan_def pos_le_divide_eq)
  have d: "0 < 1 - x\<^sup>2 / 2"
    using x2 by simp
  have "sin x / cos x \<le> x / (1 - x\<^sup>2 / 2)"
    using assms sin_x_le_x [of x] cos_ge_parabola [of x] d
    by (intro frac_le) auto
  then show "tan x \<le> x / (1 - x\<^sup>2 / 2)"
    by (simp add: tan_def)
qed

subsection \<open>The range of the tangent's argument\<close>

lemma tan_arg_deg: "tan_arg x = deg_arg x * (pi / 180)"
  by (simp add: tan_arg_def deg_arg_def deg2rad_def)

lemma deg_arg_pos:
  assumes "- 2.5 \<le> x"
  shows "0 < deg_arg x"
proof -
  have d: "0 < x + 5.11" using assms by simp
  have "0 < (x + 2.555)\<^sup>2 + 3.771975"
    by (intro add_nonneg_pos) auto
  also have "\<dots> = x * (x + 5.11) + 10.3"
    by (simp add: power2_eq_square algebra_simps)
  finally have "0 < (x * (x + 5.11) + 10.3) / (x + 5.11)"
    using d by simp
  also have "\<dots> = deg_arg x"
    using d by (simp add: deg_arg_def field_simps)
  finally show ?thesis .
qed

lemma deg_arg_less:
  assumes "- 2.5 \<le> x" "x \<le> 90"
  shows "deg_arg x < 180"
proof -
  have d: "2.61 \<le> x + 5.11" using assms by simp
  have "10.3 / (x + 5.11) \<le> 10.3 / 2.61"
    using d by (intro divide_left_mono) auto
  also have "\<dots> < (4::real)" by simp
  finally show ?thesis
    using assms by (simp add: deg_arg_def)
qed

lemma tan_arg_range:
  assumes "- 2.5 \<le> x" "x \<le> 90"
  shows "0 < tan_arg x" and "tan_arg x < pi"
proof -
  show "0 < tan_arg x"
    using deg_arg_pos [OF assms(1)] by (simp add: tan_arg_deg)
  have "deg_arg x * (pi / 180) < 180 * (pi / 180)"
    using deg_arg_less [OF assms] by (intro mult_strict_right_mono) auto
  then show "tan_arg x < pi"
    by (simp add: tan_arg_deg)
qed

lemma sqrt_pole_bounds: "9489 < sqrt 90047121" "sqrt 90047121 < 9490"
  by (rule real_less_rsqrt, simp) (rule real_less_lsqrt, simp_all)

lemma pole_elevation_range: "89.89 < pole_elevation" "pole_elevation < 89.9"
  using sqrt_pole_bounds by (simp_all add: pole_elevation_def)

lemma pole_quadratic:
  "x\<^sup>2 - 84.89 * x - 449.6 = (x - pole_elevation) * (x - (8489 - sqrt 90047121) / 200)"
proof -
  define s where "s = sqrt 90047121"
  have "s\<^sup>2 = 90047121"
    by (simp add: s_def)
  then have s: "s * s = 90047121"
    by (simp only: power2_eq_square)
  have "(x - (8489 + s) / 200) * (x - (8489 - s) / 200)
      = x\<^sup>2 - 84.89 * x + (8489 * 8489 - s * s) / 40000"
    by (simp add: power2_eq_square field_simps)
  also have "\<dots> = x\<^sup>2 - 84.89 * x - 449.6"
    by (simp add: s)
  finally show ?thesis
    by (simp add: pole_elevation_def s_def)
qed

lemma deg_arg_90_iff:
  assumes "- 2.5 \<le> x"
  shows "deg_arg x = 90 \<longleftrightarrow> x = pole_elevation"
proof -
  have d: "0 < x + 5.11" using assms by simp
  define q where "q = x\<^sup>2 - 84.89 * x - 449.6"
  have e: "(deg_arg x - 90) * (x + 5.11) = q"
    using d by (simp add: q_def deg_arg_def field_simps power2_eq_square)
  have "deg_arg x = 90 \<longleftrightarrow> q = 0"
  proof
    assume "deg_arg x = 90"
    then show "q = 0"
      unfolding e [symmetric] by simp
  next
    assume "q = 0"
    then have "(deg_arg x - 90) * (x + 5.11) = 0"
      by (simp only: e)
    then have "deg_arg x - 90 = 0 \<or> x + 5.11 = 0"
      by (simp only: mult_eq_0_iff)
    then show "deg_arg x = 90"
      using d by auto
  qed
  then have "deg_arg x = 90 \<longleftrightarrow> x\<^sup>2 - 84.89 * x - 449.6 = 0"
    by (simp only: q_def)
  also have "\<dots> \<longleftrightarrow> (x - pole_elevation) * (x - (8489 - sqrt 90047121) / 200) = 0"
    by (simp only: pole_quadratic)
  also have "\<dots> \<longleftrightarrow> x = pole_elevation"
    using assms sqrt_pole_bounds by auto
  finally show ?thesis .
qed

lemma cos_tan_arg_zero_iff:
  assumes "- 2.5 \<le> x" "x \<le> 90"
  shows "cos (tan_arg x) = 0 \<longleftrightarrow> x = pole_elevation"
proof -
  have r: "0 \<le> tan_arg x" "tan_arg x \<le> pi"
    using tan_arg_range [OF assms] by simp_all
  have "cos (tan_arg x) = 0 \<longleftrightarrow> tan_arg x = pi / 2"
  proof
    assume "cos (tan_arg x) = 0"
    then have "cos (tan_arg x) = cos (pi / 2)"
      by (simp only: cos_pi_half)
    from cos_inj_pi [OF r(1) r(2) _ _ this] show "tan_arg x = pi / 2"
      by simp
  next
    assume "tan_arg x = pi / 2"
    then show "cos (tan_arg x) = 0"
      by (simp only: cos_pi_half)
  qed
  also have "\<dots> \<longleftrightarrow> deg_arg x * (pi / 180) = 90 * (pi / 180)"
    by (simp only: tan_arg_deg) simp
  also have "\<dots> \<longleftrightarrow> deg_arg x = 90"
    by (simp only: mult_cancel_right) simp
  also have "\<dots> \<longleftrightarrow> x = pole_elevation"
    by (rule deg_arg_90_iff [OF assms(1)])
  finally show ?thesis .
qed

lemma formula_defined_iff:
  assumes "- 2.5 \<le> x" "x \<le> 90"
  shows "formula_defined x \<longleftrightarrow> x \<noteq> pole_elevation"
proof -
  have "0 < sin (tan_arg x)"
    using tan_arg_range [OF assms] by (intro sin_gt_zero)
  moreover have "x + 5.11 \<noteq> 0"
    using assms by simp
  ultimately show ?thesis
    using cos_tan_arg_zero_iff [OF assms] by (simp add: formula_defined_def)
qed

text \<open>
  Every finite double is a rational number, and \<open>pole_elevation\<close> is not one: no input
  of the program is the elevation at which the tangent's argument is a right angle.
\<close>

lemma sqrt_pole_irrational: "sqrt 90047121 \<notin> \<rat>"
proof
  assume rat: "sqrt 90047121 \<in> \<rat>"
  from Rats_abs_nat_div_natE [OF rat] obtain a b :: nat
    where frac: "\<bar>sqrt 90047121\<bar> = real a / real b" and b0: "b \<noteq> 0" and cop: "coprime a b"
    by metis
  have "(real a / real b)\<^sup>2 = 90047121"
    unfolding frac [symmetric] by simp
  then have "(real a)\<^sup>2 = 90047121 * (real b)\<^sup>2"
    using b0 by (simp add: power_divide field_simps)
  then have "real (a\<^sup>2) = real (90047121 * b\<^sup>2)"
    by simp
  then have eq: "a\<^sup>2 = 90047121 * b\<^sup>2"
    by (simp only: of_nat_eq_iff)
  then have "b\<^sup>2 dvd a\<^sup>2"
    by simp
  then have "b dvd a"
    by simp
  then have "is_unit b"
    by (rule coprime_common_divisor [OF cop _ dvd_refl])
  then have sq: "a\<^sup>2 = 90047121"
    using eq by simp
  consider "a \<le> 9489" | "9490 \<le> a"
    by linarith
  then show False
  proof cases
    case 1
    then have "a\<^sup>2 \<le> 9489\<^sup>2"
      by (simp only: power2_nat_le_eq_le)
    with sq show False by simp
  next
    case 2
    then have "9490\<^sup>2 \<le> a\<^sup>2"
      by (simp only: power2_nat_le_eq_le)
    with sq show False by simp
  qed
qed

lemma pole_elevation_irrational: "pole_elevation \<notin> \<rat>"
proof
  assume "pole_elevation \<in> \<rat>"
  then have "pole_elevation * 200 - 8489 \<in> \<rat>"
    by (intro Rats_diff Rats_mult) simp_all
  moreover have "pole_elevation * 200 = 8489 + sqrt 90047121"
    unfolding pole_elevation_def by (simp only: times_divide_eq_left nonzero_mult_div_cancel_right)
  then have "pole_elevation * 200 - 8489 = sqrt 90047121"
    by (simp only: add_diff_cancel_left')
  ultimately show False
    using sqrt_pole_irrational by simp
qed


lemma formula_defined_rational:
  assumes "x \<in> \<rat>" "- 2.5 \<le> x" "x \<le> 90"
  shows "formula_defined x"
proof -
  have "x \<noteq> pole_elevation"
    using assms(1) pole_elevation_irrational by auto
  then show ?thesis
    using formula_defined_iff [OF assms(2,3)] by simp
qed





lemma sol_elev_eq: "sol_elev = map (\<lambda>i. - 2.5 + real i / 10) [0..<925] @ [90]"
  by (simp add: sol_elev_def linspace_def)

lemma sol_elev_grid:
  assumes "x \<in> set sol_elev"
  shows "- 2.5 \<le> x \<and> x \<le> 90 \<and> (x \<le> 89.8 \<or> 89.9 \<le> x)"
proof -
  consider i where "i < 925" "x = - 2.5 + real i / 10" | "x = 90"
    using assms by (auto simp: sol_elev_eq)
  then show ?thesis
  proof cases
    case 1
    then have "i \<le> 923 \<or> i = 924" by auto
    then have "real i \<le> 923 \<or> real i = 924" by auto
    then show ?thesis using 1 by auto
  next
    case 2
    then show ?thesis by simp
  qed
qed

lemma sol_elev_defined:
  assumes "x \<in> set sol_elev" "a = - 20 \<or> a = h_min_default"
  shows "- 2.5 \<le> clip x a h_max_default \<and> 0 < clip x a h_max_default + 5.11 \<and>
         formula_defined (clip x a h_max_default)"
proof -
  define c where "c = clip x a h_max_default"
  have "- 2.5 \<le> c \<and> c \<le> 90 \<and> (c \<le> 89.8 \<or> 89.9 \<le> c)"
    using sol_elev_grid [OF assms(1)] assms(2)
    by (auto simp: c_def clip_def h_min_default_def h_max_default_def min_def max_def)
  then have r: "- 2.5 \<le> c" "c \<le> 90" and np: "c \<noteq> pole_elevation"
    using pole_elevation_range by auto
  have "formula_defined c"
    using formula_defined_iff [OF r] np by simp
  then show ?thesis
    using r unfolding c_def by simp
qed

lemma length_sol_elev: "length sol_elev = 926"
  by (simp add: sol_elev_eq)

lemma Saemundsson_sol_elev:
  assumes "273 + T \<noteq> 0" "a = - 20 \<or> a = h_min_default"
  shows "\<exists>ys. Saemundsson sol_elev T P a h_max_default = Inr ys \<and> length ys = 926 \<and> None \<notin> set ys"
proof -
  let ?f = "\<lambda>x. if formula_defined (clip x a h_max_default)
                  then Some (spec_correction (clip x a h_max_default) T P) else None"
  have "Saemundsson sol_elev T P a h_max_default = Inr (map ?f sol_elev)"
    by (rule Saemundsson_Inr [OF assms(1)])
  moreover have "None \<notin> set (map ?f sol_elev)"
    using sol_elev_defined [OF _ assms(2)] by auto
  ultimately show ?thesis
    by (simp add: length_sol_elev)
qed

text \<open>
  C10: for every element of \<open>sol_elev\<close> and both lower clip bounds the script uses
  (\<open>-20\<close> and the default \<open>-1\<close>), the clipped value is at least \<open>-2.5\<close>, the denominator
  \<open>h + 5.11\<close> is strictly positive and the whole formula has a value; each of the eight
  plotted curves is an array of 926 defined elements.
\<close>

theorem script_calls_well_defined:
  "(\<forall>x\<in>set sol_elev. \<forall>a\<in>{- 20, h_min_default}.
      - 2.5 \<le> clip x a h_max_default \<and> 0 < clip x a h_max_default + 5.11 \<and>
      formula_defined (clip x a h_max_default)) \<and>
   (\<forall>r\<in>set plotted. \<exists>ys. r = Inr ys \<and> length ys = 926 \<and> None \<notin> set ys)"
proof (intro conjI ballI)
  fix x a
  assume "x \<in> set sol_elev" "a \<in> {- 20, h_min_default}"
  then have "- 2.5 \<le> clip x a h_max_default \<and> 0 < clip x a h_max_default + 5.11 \<and>
         formula_defined (clip x a h_max_default)"
    by (intro sol_elev_defined) auto
  then show "- 2.5 \<le> clip x a h_max_default" "0 < clip x a h_max_default + 5.11"
    "formula_defined (clip x a h_max_default)"
    by simp_all
next
  fix r
  assume "r \<in> set plotted"
  then obtain T P a where "r = Saemundsson sol_elev T P a h_max_default"
    "T = 10 \<or> T = - 30" "a = - 20 \<or> a = h_min_default"
    by (auto simp: plotted_def atmos_cond_def curves_def)
  then show "\<exists>ys. r = Inr ys \<and> length ys = 926 \<and> None \<notin> set ys"
    using Saemundsson_sol_elev [of T a P] by auto
qed

theorem script_calls_well_defined_witness:
  "90 \<in> set sol_elev \<and> - 20 \<in> {- 20, h_min_default} \<and>
   - 2.5 \<le> clip 90 (- 20) h_max_default \<and> 0 < clip 90 (- 20) h_max_default + 5.11 \<and>
   formula_defined (clip 90 (- 20) h_max_default) \<and>
   Saemundsson sol_elev 10 101 (- 20) h_max_default \<in> set plotted \<and>
   (\<exists>ys. Saemundsson sol_elev 10 101 (- 20) h_max_default = Inr ys \<and> length ys = 926 \<and> None \<notin> set ys)"
proof -
  have m: "90 \<in> set sol_elev"
    by (simp add: sol_elev_eq)
  have a: "- 20 \<in> {- 20, h_min_default}"
    by simp
  have pl: "Saemundsson sol_elev 10 101 (- 20) h_max_default \<in> set plotted"
    by (simp add: plotted_def atmos_cond_def curves_def)
  show ?thesis
    using m a pl script_calls_well_defined by blast
qed

subsection \<open>Monotonicity and the values at the horizon and at the zenith\<close>

lemma cot_antimono:
  fixes a b :: real
  assumes "0 < a" "a \<le> b" "b < pi"
  shows "cos b / sin b \<le> cos a / sin a"
proof -
  have sa: "0 < sin a" and sb: "0 < sin b"
    using assms by (auto intro!: sin_gt_zero)
  have "0 \<le> sin (b - a)"
    using assms by (intro sin_ge_zero) auto
  then have "cos b * sin a \<le> cos a * sin b"
    by (simp add: sin_diff mult.commute)
  then show ?thesis
    using sa sb by (simp add: field_simps)
qed

lemma deg_arg_mono:
  assumes "0 \<le> x" "x \<le> y"
  shows "deg_arg x \<le> deg_arg y"
proof -
  define D where "D = (x + 5.11) * (y + 5.11)"
  have dx: "5.11 \<le> x + 5.11" and dy: "5.11 \<le> y + 5.11"
    using assms by simp_all
  have "5.11 * 5.11 \<le> (x + 5.11) * (y + 5.11)"
    using dx dy by (intro mult_mono) auto
  then have big: "10.3 \<le> D"
    by (simp add: D_def)
  have n: "10.3 * (y + 5.11) - 10.3 * (x + 5.11) = 10.3 * (y - x)"
    by (simp add: algebra_simps)
  have "10.3 / (x + 5.11) - 10.3 / (y + 5.11)
      = (10.3 * (y + 5.11) - 10.3 * (x + 5.11)) / ((x + 5.11) * (y + 5.11))"
    using dx dy by (intro diff_frac_eq) auto
  then have "10.3 / (x + 5.11) - 10.3 / (y + 5.11) = 10.3 * (y - x) / D"
    by (simp only: n D_def)
  also have "\<dots> \<le> D * (y - x) / D"
    using big assms by (intro divide_right_mono mult_right_mono) auto
  also have "\<dots> = y - x"
    using big by simp
  finally show ?thesis
    by (simp add: deg_arg_def)
qed

text \<open>The part of the closed form that depends on the angle, in arc minutes.\<close>

lemma spec_correction_cot:
  "spec_correction hc T P =
     (1.02 * (cos (tan_arg hc) / sin (tan_arg hc)) + 0.0019279) * ((P / 101) * (283 / (273 + T)) / 60)"
proof -
  have "1.02 / tan (tan_arg hc) = 1.02 * (1 / tan (tan_arg hc))"
    by simp
  also have "\<dots> = 1.02 * (cos (tan_arg hc) / sin (tan_arg hc))"
    by (simp only: inv_tan)
  finally show ?thesis
    by (simp add: spec_correction_def tan_arg_def)
qed

lemma scale_nonneg:
  fixes P T :: real
  assumes "0 \<le> P" "0 < 273 + T"
  shows "0 \<le> (P / 101) * (283 / (273 + T)) / 60"
  using assms by simp

lemma spec_correction_antimono:
  assumes "0 \<le> P" "0 < 273 + T" "0 \<le> x" "x \<le> y" "y \<le> 90"
  shows "spec_correction y T P \<le> spec_correction x T P"
proof -
  have rx: "- 2.5 \<le> x" "x \<le> 90" and ry: "- 2.5 \<le> y" "y \<le> 90"
    using assms by simp_all
  have "tan_arg x \<le> tan_arg y"
    using deg_arg_mono [OF assms(3,4)] by (simp add: tan_arg_deg)
  then have "cos (tan_arg y) / sin (tan_arg y) \<le> cos (tan_arg x) / sin (tan_arg x)"
    using tan_arg_range [OF rx] tan_arg_range [OF ry] by (intro cot_antimono)
  then have "1.02 * (cos (tan_arg y) / sin (tan_arg y)) + 0.0019279
      \<le> 1.02 * (cos (tan_arg x) / sin (tan_arg x)) + 0.0019279"
    by simp
  then show ?thesis
    unfolding spec_correction_cot
    by (rule mult_right_mono) (rule scale_nonneg [OF assms(1,2)])
qed

text \<open>Near the zenith the angle is a right angle plus a small excess.\<close>

lemma cot_past_right_angle: "cos (pi / 2 + y) / sin (pi / 2 + y) = - tan y" for y :: real
  by (simp add: cos_add sin_add tan_def)

lemma tan_arg_excess: "tan_arg x = pi / 2 + (deg_arg x - 90) * (pi / 180)"
proof -
  have "(deg_arg x - 90) * (pi / 180) = deg_arg x * (pi / 180) - 90 * (pi / 180)"
    by (rule left_diff_distrib)
  also have "\<dots> = tan_arg x - pi / 2"
    by (simp add: tan_arg_deg)
  finally have e: "(deg_arg x - 90) * (pi / 180) = tan_arg x - pi / 2" .
  show ?thesis
    unfolding e by simp
qed

lemma tan_upper_at:
  fixes y u :: real
  assumes "0 \<le> y" "y \<le> u" "u \<le> 1"
  shows "tan y \<le> u / (1 - u\<^sup>2 / 2)"
proof -
  have "y\<^sup>2 \<le> u\<^sup>2"
    using assms by (intro power_mono) auto
  moreover have "u\<^sup>2 \<le> 1"
    using assms by (simp add: power_le_one)
  ultimately have d: "0 < 1 - u\<^sup>2 / 2" "1 - u\<^sup>2 / 2 \<le> 1 - y\<^sup>2 / 2"
    by simp_all
  have "tan y \<le> y / (1 - y\<^sup>2 / 2)"
    using assms by (intro tan_bounds) auto
  also have "\<dots> \<le> u / (1 - u\<^sup>2 / 2)"
    using assms d by (intro frac_le) auto
  finally show ?thesis .
qed

lemma zenith_bracket:
  "- (3 / 10 ^ 8) < 1.02 * (cos (tan_arg 90) / sin (tan_arg 90)) + 0.0019279"
  "1.02 * (cos (tan_arg 90) / sin (tan_arg 90)) + 0.0019279 < - (1 / 10 ^ 8)"
proof -
  define y where "y = (1030 / 9511) * (pi / 180)"
  have ta: "tan_arg 90 = pi / 2 + y"
    by (simp add: tan_arg_excess deg_arg_def y_def)
  have lo: "(1030 / 9511) * (314159 / 100000 / 180) \<le> y"
    unfolding y_def using pi_lower by (intro mult_left_mono divide_right_mono) auto
  have hi: "y \<le> (1030 / 9511) * (31416 / 10000 / 180)"
    unfolding y_def using pi_upper by (intro mult_left_mono divide_right_mono) auto
  have y0: "0 \<le> y" "y \<le> 1"
    using lo hi by simp_all
  have t1: "y \<le> tan y"
    using y0 by (intro tan_bounds) auto
  have t2: "tan y \<le> ((1030 / 9511) * (31416 / 10000 / 180))
      / (1 - ((1030 / 9511) * (31416 / 10000 / 180))\<^sup>2 / 2)"
    using y0 hi by (intro tan_upper_at) auto
  also have "\<dots> < (0.0019279 + 3 / 10 ^ 8) / 1.02"
    by (simp add: power2_eq_square)
  finally have u: "1.02 * tan y < 0.0019279 + 3 / 10 ^ 8"
    by (simp add: field_simps)
  have "(0.0019279 + 1 / 10 ^ 8) / 1.02 < (1030 / 9511) * (314159 / 100000 / 180 :: real)"
    by simp
  also have "\<dots> \<le> tan y"
    using lo t1 by simp
  finally have l: "0.0019279 + 1 / 10 ^ 8 < 1.02 * tan y"
    by (simp add: field_simps)
  have c: "cos (tan_arg 90) / sin (tan_arg 90) = - tan y"
    by (simp only: ta cot_past_right_angle)
  show "- (3 / 10 ^ 8) < 1.02 * (cos (tan_arg 90) / sin (tan_arg 90)) + 0.0019279"
    unfolding c using u by simp
  show "1.02 * (cos (tan_arg 90) / sin (tan_arg 90)) + 0.0019279 < - (1 / 10 ^ 8)"
    unfolding c using l by simp
qed

lemma near_zenith_bracket:
  "0 \<le> 1.02 * (cos (tan_arg 89.9999) / sin (tan_arg 89.9999)) + 0.0019279"
proof -
  define e where "e = (10.3 / (89.9999 + 5.11) - 0.0001 :: real)"
  define y where "y = e * (pi / 180)"
  have e0: "0 \<le> e"
    by (simp add: e_def)
  have ta: "tan_arg 89.9999 = pi / 2 + y"
    by (simp add: tan_arg_excess deg_arg_def y_def e_def)
  have hi: "y \<le> e * (31416 / 10000 / 180)"
    unfolding y_def using pi_upper e0 by (intro mult_left_mono divide_right_mono) auto
  have y0: "0 \<le> y"
    unfolding y_def using e0 by simp
  have e1: "e * (31416 / 10000 / 180) \<le> 1"
    by (simp add: e_def)
  have "tan y \<le> (e * (31416 / 10000 / 180)) / (1 - (e * (31416 / 10000 / 180))\<^sup>2 / 2)"
    using y0 hi e1 by (intro tan_upper_at) auto
  also have "\<dots> \<le> 0.0019279 / 1.02"
    by (simp add: e_def power2_eq_square)
  finally have u: "1.02 * tan y \<le> 0.0019279"
    by (simp add: field_simps)
  have c: "cos (tan_arg 89.9999) / sin (tan_arg 89.9999) = - tan y"
    by (simp only: ta cot_past_right_angle)
  show ?thesis
    unfolding c using u by simp
qed

lemma formula_defined_0: "formula_defined 0"
  using formula_defined_iff [of 0] pole_elevation_range by simp

lemma formula_defined_90: "formula_defined 90"
  using formula_defined_iff [of 90] pole_elevation_range by simp

lemma horizon_bracket:
  "28.976 < 1.02 * (cos (tan_arg 0) / sin (tan_arg 0)) + 0.0019279"
  "1.02 * (cos (tan_arg 0) / sin (tan_arg 0)) + 0.0019279 < 28.997"
proof -
  define a where "a = (1030 / 511) * (pi / 180)"
  define L :: real where "L = (1030 / 511) * (314159 / 100000 / 180)"
  define H :: real where "H = (1030 / 511) * (31416 / 10000 / 180)"
  define U :: real where "U = H / (1 - H\<^sup>2 / 2)"
  have ta: "tan_arg 0 = a"
    by (simp add: tan_arg_def deg2rad_def a_def)
  have lo: "L \<le> a"
    unfolding a_def L_def using pi_lower by (intro mult_left_mono divide_right_mono) auto
  have hi: "a \<le> H"
    unfolding a_def H_def using pi_upper by (intro mult_left_mono divide_right_mono) auto
  have Lpos: "0 < L" and H1: "H \<le> 1"
    by (simp_all add: L_def H_def)
  have Upos: "0 < U"
    by (simp add: U_def H_def power2_eq_square)
  have a0: "0 \<le> a" "a \<le> 1"
    using lo hi Lpos H1 by simp_all
  have c: "cos (tan_arg 0) / sin (tan_arg 0) = 1 / tan a"
    by (simp only: ta inv_tan)
  have "a \<le> tan a"
    using a0 by (intro tan_bounds) auto
  then have t1: "L \<le> tan a"
    using lo by simp
  then have tpos: "0 < tan a"
    using Lpos by simp
  have t2: "tan a \<le> U"
    unfolding U_def using a0 hi H1 by (intro tan_upper_at) auto
  have "1 / tan a \<le> 1 / L"
    using t1 Lpos tpos by (intro divide_left_mono mult_pos_pos) auto
  also have "\<dots> < (28.997 - 0.0019279) / 1.02"
    by (simp add: L_def)
  finally have u: "1.02 * (1 / tan a) + 0.0019279 < 28.997"
    by (simp add: field_simps)
  have "(28.976 - 0.0019279) / 1.02 < 1 / U"
    by (simp add: U_def H_def power2_eq_square)
  also have "\<dots> \<le> 1 / tan a"
    using t2 Upos tpos by (intro divide_left_mono mult_pos_pos) auto
  finally have l: "28.976 < 1.02 * (1 / tan a) + 0.0019279"
    by (simp add: field_simps)
  show "28.976 < 1.02 * (cos (tan_arg 0) / sin (tan_arg 0)) + 0.0019279"
    unfolding c using l .
  show "1.02 * (cos (tan_arg 0) / sin (tan_arg 0)) + 0.0019279 < 28.997"
    unfolding c using u .
qed

lemma horizon_value:
  "Saemundsson [0] 10 101 (- 20) h_max_default = Inr [Some (spec_correction 0 10 101)]"
  "0.4829 < spec_correction 0 10 101" "spec_correction 0 10 101 < 0.4833"
  "\<bar>spec_correction 0 10 101 - 0.483\<bar> \<le> 0.001"
  "\<not> \<bar>spec_correction 0 10 101 - 0.561\<bar> \<le> 0.001"
proof -
  show "Saemundsson [0] 10 101 (- 20) h_max_default = Inr [Some (spec_correction 0 10 101)]"
    by (simp add: Saemundsson_Inr clip_def h_max_default_def formula_defined_0)
  have e: "spec_correction 0 10 101
      = (1.02 * (cos (tan_arg 0) / sin (tan_arg 0)) + 0.0019279) / 60"
    by (simp add: spec_correction_cot)
  show l: "0.4829 < spec_correction 0 10 101"
    unfolding e using horizon_bracket(1) by simp
  show u: "spec_correction 0 10 101 < 0.4833"
    unfolding e using horizon_bracket(2) by simp
  show "\<bar>spec_correction 0 10 101 - 0.483\<bar> \<le> 0.001"
    unfolding abs_le_iff using l u by simp
  show "\<not> \<bar>spec_correction 0 10 101 - 0.561\<bar> \<le> 0.001"
    unfolding abs_le_iff using l u by simp
qed

text \<open>
  C3, as stated, fails: with \<open>T = 10\<close>, \<open>P = 101\<close>, \<open>h_min = -20\<close> and the input \<open>0.0\<close> the
  correction is not within \<open>0.001\<close> of \<open>0.561\<close>.
\<close>

theorem horizon_correction_not_0561:
  "\<exists>v. Saemundsson [0] 10 101 (- 20) h_max_default = Inr [Some v] \<and> \<not> \<bar>v - 0.561\<bar> \<le> 0.001"
  using horizon_value by (intro exI [of _ "spec_correction 0 10 101"] conjI)

text \<open>
  C3, amended: with \<open>T = 10\<close>, \<open>P = 101\<close>, \<open>h_min = -20\<close> and the input \<open>0.0\<close> the
  correction lies between \<open>0.4829\<close> and \<open>0.4833\<close> degrees, so it is \<open>0.483\<close> within a
  tolerance of \<open>0.001\<close>.
\<close>

theorem horizon_correction_0483:
  "\<exists>v. Saemundsson [0] 10 101 (- 20) h_max_default = Inr [Some v] \<and>
       0.4829 < v \<and> v < 0.4833 \<and> \<bar>v - 0.483\<bar> \<le> 0.001"
  using horizon_value by (intro exI [of _ "spec_correction 0 10 101"] conjI)

lemma zenith_value:
  assumes "273 + T \<noteq> 0"
  shows "Saemundsson [90] T P h_min_default h_max_default = Inr [Some (spec_correction 90 T P)]"
  using assms
  by (simp add: Saemundsson_Inr clip_def h_min_default_def h_max_default_def formula_defined_90)

text \<open>
  C4, as stated, fails for \<open>T = -273\<close>: the factor \<open>283 / (273 + T)\<close> divides by zero
  and the call returns no array at all.
\<close>

theorem zenith_raises_at_minus_273:
  "Saemundsson [90] (- 273) P_default h_min_default h_max_default = Inl ZeroDivisionError"
  by (simp add: Saemundsson_Inl)

text \<open>
  C4, amended: for every pressure \<open>P\<close> and every temperature \<open>T\<close> other than \<open>-273\<close>, the
  correction at the input \<open>90.0\<close> under the default clip bounds is at most
  \<open>5 / 10 ^ 10\<close> times the absolute value of the factor
  \<open>(P / 101) * (283 / (273 + T))\<close>.
\<close>

theorem zenith_correction_small:
  assumes "273 + T \<noteq> 0"
  shows "\<exists>v. Saemundsson [90] T P h_min_default h_max_default = Inr [Some v] \<and>
           \<bar>v\<bar> \<le> 5 / 10 ^ 10 * \<bar>(P / 101) * (283 / (273 + T))\<bar>"
proof -
  define B where "B = 1.02 * (cos (tan_arg 90) / sin (tan_arg 90)) + 0.0019279"
  define S where "S = (P / 101) * (283 / (273 + T))"
  have "\<bar>B\<bar> \<le> 3 / 10 ^ 8"
    using zenith_bracket by (simp add: B_def)
  then have "\<bar>B\<bar> * \<bar>S / 60\<bar> \<le> 3 / 10 ^ 8 * \<bar>S / 60\<bar>"
    by (intro mult_right_mono) auto
  then have "\<bar>B * (S / 60)\<bar> \<le> 5 / 10 ^ 10 * \<bar>S\<bar>"
    by (simp add: abs_mult)
  moreover have "spec_correction 90 T P = B * (S / 60)"
    by (simp only: spec_correction_cot B_def S_def)
  ultimately have "\<bar>spec_correction 90 T P\<bar> \<le> 5 / 10 ^ 10 * \<bar>(P / 101) * (283 / (273 + T))\<bar>"
    by (simp only: S_def)
  then show ?thesis
    using zenith_value [OF assms] by blast
qed

theorem zenith_correction_small_witness:
  "273 + (10::real) \<noteq> 0 \<and>
   (\<exists>v. Saemundsson [90] 10 101 h_min_default h_max_default = Inr [Some v] \<and> \<bar>v\<bar> \<le> 5 / 10 ^ 10)"
proof -
  have t: "273 + (10::real) \<noteq> 0"
    by simp
  show ?thesis
    using t zenith_correction_small [OF t, of 101] by simp
qed

text \<open>
  C5, as stated, fails at \<open>h = 90\<close>: with the default temperature, pressure and clip
  bounds the correction there is strictly negative.
\<close>

theorem zenith_correction_negative:
  "\<exists>v. Saemundsson [90] T_default P_default h_min_default h_max_default = Inr [Some v] \<and> v < 0"
proof -
  have "spec_correction 90 10 101 = (1.02 * (cos (tan_arg 90) / sin (tan_arg 90)) + 0.0019279) / 60"
    by (simp add: spec_correction_cot)
  then have "spec_correction 90 10 101 < 0"
    using zenith_bracket(2) by simp
  then show ?thesis
    using zenith_value [of 10 101] by (simp add: T_default_def P_default_def)
qed

lemma near_zenith_nonneg:
  assumes "0 \<le> P" "0 < 273 + T" "0 \<le> x" "x \<le> 89.9999"
  shows "0 \<le> spec_correction x T P"
proof -
  have "0 \<le> spec_correction 89.9999 T P"
    unfolding spec_correction_cot
    by (intro mult_nonneg_nonneg near_zenith_bracket scale_nonneg assms)
  also have "\<dots> \<le> spec_correction x T P"
    using assms by (intro spec_correction_antimono) auto
  finally show ?thesis .
qed

text \<open>
  C5, amended: for \<open>P \<ge> 0\<close>, \<open>T > -273\<close> and the default clip bounds, the correction
  is non-increasing in \<open>h\<close> over \<open>[0, 90]\<close>, and it is non-negative for every \<open>h\<close> in
  \<open>[0, 89.9999]\<close>, for all inputs the program can receive (doubles, hence rational
  numbers). The order is that of exact arithmetic; rounding is not modelled.
\<close>

theorem refraction_nonincreasing:
  assumes "0 \<le> P" "0 < 273 + T" "0 \<le> h1" "h1 \<le> h2" "h2 \<le> 90"
    and "h1 \<in> \<rat>" "h2 \<in> \<rat>"
  shows "\<exists>v1 v2. Saemundsson [h1, h2] T P h_min_default h_max_default = Inr [Some v1, Some v2] \<and>
           v2 \<le> v1 \<and> (h1 \<le> 89.9999 \<longrightarrow> 0 \<le> v1) \<and> (h2 \<le> 89.9999 \<longrightarrow> 0 \<le> v2)"
proof -
  have c: "clip h1 h_min_default h_max_default = h1" "clip h2 h_min_default h_max_default = h2"
    using assms by (simp_all add: clip_def h_min_default_def h_max_default_def)
  have d: "formula_defined h1" "formula_defined h2"
    using assms by (auto intro!: formula_defined_rational)
  have t: "273 + T \<noteq> 0"
    using assms by simp
  have "Saemundsson [h1, h2] T P h_min_default h_max_default
      = Inr [Some (spec_correction h1 T P), Some (spec_correction h2 T P)]"
    by (simp add: Saemundsson_Inr [OF t] c d)
  moreover have "spec_correction h2 T P \<le> spec_correction h1 T P"
    using assms by (intro spec_correction_antimono) auto
  moreover have "h1 \<le> 89.9999 \<longrightarrow> 0 \<le> spec_correction h1 T P"
    using assms near_zenith_nonneg [of P T h1] by simp
  moreover have "h2 \<le> 89.9999 \<longrightarrow> 0 \<le> spec_correction h2 T P"
    using assms near_zenith_nonneg [of P T h2] by simp
  ultimately show ?thesis
    by blast
qed

theorem refraction_nonincreasing_witness:
  "(0::real) \<le> 101 \<and> (0::real) < 273 + 10 \<and> (0::real) \<le> 0 \<and> (0::real) \<le> 45 \<and> (45::real) \<le> 90 \<and>
   (0::real) \<in> \<rat> \<and> (45::real) \<in> \<rat> \<and> (45::real) \<le> 89.9999 \<and>
   (\<exists>v1 v2. Saemundsson [0, 45] 10 101 h_min_default h_max_default = Inr [Some v1, Some v2] \<and>
      v2 \<le> v1 \<and> 0 \<le> v1 \<and> 0 \<le> v2)"
proof -
  have q: "(0::real) \<in> \<rat>" "(45::real) \<in> \<rat>"
    by simp_all
  have "\<exists>v1 v2. Saemundsson [0, 45] 10 101 h_min_default h_max_default = Inr [Some v1, Some v2] \<and>
           v2 \<le> v1 \<and> ((0::real) \<le> 89.9999 \<longrightarrow> 0 \<le> v1) \<and> ((45::real) \<le> 89.9999 \<longrightarrow> 0 \<le> v2)"
    by (rule refraction_nonincreasing [of 101 10 0 45, OF _ _ _ _ _ q]) simp_all
  then show ?thesis
    using q by simp
qed

end
